theory Spec2Isabelle
  imports Main "HOL-Library.Sublist"
begin

section \<open>JavaScript values\<close>

text \<open>
  A property of a JSON object read in JavaScript is absent (\<open>undefined\<close>), \<open>null\<close> or a
  value. Text properties are modelled as ASCII strings and numeric properties as integers:
  the request bodies and the article objects are typed, so a number where a string is
  expected (and the reverse) is outside the model.
\<close>

datatype 'a js = Undefined | Null | Val 'a

text \<open>Truthiness of a string-valued property: \<open>undefined\<close>, \<open>null\<close> and \<open>''\<close> are falsy.\<close>

fun truthy :: "string js \<Rightarrow> bool" where
  "truthy (Val s) = (s \<noteq> [])"
| "truthy _ = False"

text \<open>The expression \<open>x || d\<close> for a string-valued \<open>x\<close> and a string literal \<open>d\<close>.\<close>

definition or_else :: "string js \<Rightarrow> string \<Rightarrow> string js" where
  "or_else x d = (if truthy x then x else Val d)"

text \<open>
  A query parameter as node-postgres sends it: \<open>undefined\<close> and \<open>null\<close> both become SQL
  \<open>NULL\<close>.
\<close>

fun param :: "'a js \<Rightarrow> 'a option" where
  "param (Val v) = Some v"
| "param _ = None"

section \<open>The table \<open>sf_articles\<close>\<close>

text \<open>
  One row of the table that \<open>initDB\<close> creates (server.js, lines 34-50). \<open>article_id\<close> and
  \<open>title\<close> are \<open>NOT NULL\<close>; every other data column is nullable. Timestamps are
  natural numbers handed to each request by its caller (the clock is an input).
\<close>

record row =
  row_id :: int
  article_id :: string
  title :: string
  keyword :: "string option"
  intent :: "string option"
  funnel :: "string option"
  description :: "string option"
  priority :: "string option"
  word_count :: "int option"
  category :: "string option"
  week :: "int option"
  status :: "string option"
  notes' :: "string option"
  created_at :: nat
  updated_at :: nat

text \<open>
  The database: the table's rows and the last value of the sequence behind
  \<open>id SERIAL\<close>. A sequence is not transactional: \<open>ROLLBACK\<close> restores the rows and
  leaves the sequence where it is.
\<close>

record db =
  sf_articles :: "row list"
  sf_articles_id_seq :: int

datatype pg_error =
    not_null_violation string
  | string_data_right_truncation nat
  | numeric_value_out_of_range

text \<open>
  Assignment to a \<open>VARCHAR(n)\<close> column: a longer value is an error unless the excess
  characters are all spaces, in which case it is cut to \<open>n\<close> characters.
\<close>

definition varchar :: "nat \<Rightarrow> string option \<Rightarrow> pg_error + string option" where
  "varchar n v =
     (case v of
        None \<Rightarrow> Inr None
      | Some s \<Rightarrow>
          if length s \<le> n then Inr (Some s)
          else if list_all (\<lambda>c. c = CHR '' '') (drop n s) then Inr (Some (take n s))
          else Inl (string_data_right_truncation n))"

text \<open>A parameter of type \<open>INTEGER\<close>: 32 bits, signed.\<close>

definition int4 :: "int option \<Rightarrow> pg_error + int option" where
  "int4 v =
     (case v of
        None \<Rightarrow> Inr None
      | Some i \<Rightarrow>
          if - 2147483648 \<le> i \<and> i \<le> 2147483647 then Inr (Some i)
          else Inl numeric_value_out_of_range)"

definition not_null :: "string \<Rightarrow> 'a option \<Rightarrow> pg_error + 'a" where
  "not_null col v = (case v of None \<Rightarrow> Inl (not_null_violation col) | Some x \<Rightarrow> Inr x)"

text \<open>Sequencing of checks: the first error ends the statement.\<close>

definition check :: "pg_error + 'a \<Rightarrow> ('a \<Rightarrow> pg_error + 'b) \<Rightarrow> pg_error + 'b" where
  "check x f = (case x of Inl e \<Rightarrow> Inl e | Inr v \<Rightarrow> f v)"

definition coalesce :: "'a option \<Rightarrow> 'a option \<Rightarrow> 'a option" where
  "coalesce x y = (case x of Some v \<Rightarrow> Some v | None \<Rightarrow> y)"

text \<open>
  The values given for the \<open>VARCHAR\<close> columns, coerced to the column types in column
  order. The coercion of a parameter is done when the statement is planned, before it
  runs: an error here leaves the database, the sequence included, as it was.
\<close>

definition sf_articles_coerce ::
  "string option \<Rightarrow> string option \<Rightarrow> string option \<Rightarrow> string option \<Rightarrow> string option \<Rightarrow>
   string option \<Rightarrow> string option \<Rightarrow>
   pg_error + (string option \<times> string option \<times> string option \<times> string option \<times>
               string option \<times> string option \<times> string option)" where
  "sf_articles_coerce aid kw it fu pr ca st =
     check (varchar 10 aid) (\<lambda>aid'.
     check (varchar 255 kw) (\<lambda>kw'.
     check (varchar 100 it) (\<lambda>it'.
     check (varchar 50 fu) (\<lambda>fu'.
     check (varchar 20 pr) (\<lambda>pr'.
     check (varchar 100 ca) (\<lambda>ca'.
     check (varchar 50 st) (\<lambda>st'.
       Inr (aid', kw', it', fu', pr', ca', st'))))))))"

text \<open>
  The tuple an \<open>INSERT\<close> proposes, from values of the column types: the \<open>NOT NULL\<close>
  constraints are checked on it. \<open>i\<close> is the value drawn from the sequence and \<open>now\<close>
  is \<open>CURRENT_TIMESTAMP\<close>.
\<close>

definition sf_articles_tuple ::
  "int \<Rightarrow> nat \<Rightarrow> string option \<Rightarrow> string option \<Rightarrow> string option \<Rightarrow> string option \<Rightarrow>
   string option \<Rightarrow> string option \<Rightarrow> string option \<Rightarrow> int option \<Rightarrow> string option \<Rightarrow>
   int option \<Rightarrow> string option \<Rightarrow> string option \<Rightarrow> pg_error + row" where
  "sf_articles_tuple i now aid ti kw it fu de pr wc ca wk st nt =
     check (not_null ''article_id'' aid) (\<lambda>aid'.
     check (not_null ''title'' ti) (\<lambda>ti'.
       Inr \<lparr> row_id = i, article_id = aid', title = ti', keyword = kw, intent = it,
             funnel = fu, description = de, priority = pr, word_count = wc,
             category = ca, week = wk, status = st, notes' = nt,
             created_at = now, updated_at = now \<rparr>))"

text \<open>
  \<open>INSERT INTO sf_articles ... ON CONFLICT (article_id) DO UPDATE SET ...\<close>. The integer
  parameters are read when the statement is bound and the text parameters are coerced
  when it is planned; the sequence is advanced when the statement runs, also when the
  tuple violates a constraint or is merged into an existing row. The \<open>SET\<close> clause is
  the argument \<open>do_update\<close>: it maps the stored row and the proposed tuple
  (\<open>EXCLUDED\<close>) to the new stored row. The result is the row \<open>RETURNING *\<close> gives.
\<close>

definition insert_on_conflict ::
  "(row \<Rightarrow> row \<Rightarrow> row) \<Rightarrow> nat \<Rightarrow> string option \<Rightarrow> string option \<Rightarrow> string option \<Rightarrow>
   string option \<Rightarrow> string option \<Rightarrow> string option \<Rightarrow> string option \<Rightarrow> int option \<Rightarrow>
   string option \<Rightarrow> int option \<Rightarrow> string option \<Rightarrow> string option \<Rightarrow> db \<Rightarrow>
   (pg_error + row) \<times> db" where
  "insert_on_conflict do_update now aid ti kw it fu de pr wc ca wk st nt d =
     (case check (int4 wc) (\<lambda>wc'. check (int4 wk) (\<lambda>wk'.
             check (sf_articles_coerce aid kw it fu pr ca st) (\<lambda>c. Inr (wc', wk', c)))) of
        Inl e \<Rightarrow> (Inl e, d)
      | Inr (wc', wk', aid', kw', it', fu', pr', ca', st') \<Rightarrow>
          let i = sf_articles_id_seq d + 1;
              d1 = d\<lparr>sf_articles_id_seq := i\<rparr>
          in (case sf_articles_tuple i now aid' ti kw' it' fu' de pr' wc' ca' wk' st' nt of
                Inl e \<Rightarrow> (Inl e, d1)
              | Inr excluded \<Rightarrow>
                  (case find (\<lambda>r. article_id r = article_id excluded) (sf_articles d) of
                     None \<Rightarrow> (Inr excluded, d1\<lparr>sf_articles := sf_articles d @ [excluded]\<rparr>)
                   | Some old \<Rightarrow>
                       (Inr (do_update old excluded),
                        d1\<lparr>sf_articles :=
                             map (\<lambda>r. if article_id r = article_id excluded
                                       then do_update r excluded else r)
                                 (sf_articles d)\<rparr>))))"

text \<open>The \<open>SET\<close> clause of \<open>POST /api/articles\<close> (server.js, lines 106-118).\<close>

definition upsert_set :: "row \<Rightarrow> row \<Rightarrow> row" where
  "upsert_set old excluded =
     old\<lparr> title := title excluded,
          keyword := keyword excluded,
          intent := intent excluded,
          funnel := funnel excluded,
          description := description excluded,
          priority := priority excluded,
          word_count := word_count excluded,
          category := category excluded,
          week := week excluded,
          status := coalesce (status excluded) (status old),
          notes' := coalesce (notes' excluded) (notes' old),
          updated_at := updated_at excluded \<rparr>"

text \<open>The \<open>SET\<close> clause of \<open>POST /api/articles/bulk\<close> (server.js, lines 178-188).\<close>

definition bulk_set :: "row \<Rightarrow> row \<Rightarrow> row" where
  "bulk_set old excluded =
     old\<lparr> title := title excluded,
          keyword := keyword excluded,
          intent := intent excluded,
          funnel := funnel excluded,
          description := description excluded,
          priority := priority excluded,
          word_count := word_count excluded,
          category := category excluded,
          week := week excluded,
          updated_at := updated_at excluded \<rparr>"

text \<open>
  \<open>UPDATE sf_articles SET status = COALESCE($1, status), notes = COALESCE($2, notes),
  week = COALESCE($3, week), updated_at = CURRENT_TIMESTAMP WHERE id = $4 RETURNING *\<close>
  (server.js, lines 136-141). The integer parameters are read when the statement is
  bound and the status is coerced to \<open>VARCHAR(50)\<close> when it is planned, so a value that
  does not fit is an error before any row is read, whether or not a row has the id. The
  result lists the rows \<open>RETURNING *\<close> gives.
\<close>

definition patch_set :: "nat \<Rightarrow> string option \<Rightarrow> string option \<Rightarrow> int option \<Rightarrow> row \<Rightarrow> row" where
  "patch_set now st nt wk r =
     r\<lparr> status := coalesce st (status r),
        notes' := coalesce nt (notes' r),
        week := coalesce wk (week r),
        updated_at := now \<rparr>"

definition update_by_id ::
  "nat \<Rightarrow> string option \<Rightarrow> string option \<Rightarrow> int option \<Rightarrow> int \<Rightarrow> db \<Rightarrow>
   (pg_error + row list) \<times> db" where
  "update_by_id now st nt wk i d =
     (case check (int4 wk) (\<lambda>wk'. check (int4 (Some i)) (\<lambda>_.
             check (varchar 50 st) (\<lambda>st'. Inr (wk', st')))) of
        Inl e \<Rightarrow> (Inl e, d)
      | Inr (wk', st') \<Rightarrow>
          (Inr (map (patch_set now st' nt wk') (filter (\<lambda>r. row_id r = i) (sf_articles d))),
           d\<lparr>sf_articles :=
                map (\<lambda>r. if row_id r = i then patch_set now st' nt wk' r else r)
                    (sf_articles d)\<rparr>))"

text \<open>\<open>ORDER BY week, article_id\<close>: ascending, \<open>NULL\<close> weeks last, strings compared
  character by character (the \<open>C\<close> collation).\<close>

fun str_le :: "string \<Rightarrow> string \<Rightarrow> bool" where
  "str_le [] t = True"
| "str_le (c # cs) [] = False"
| "str_le (c # cs) (d # ds) =
     (if c = d then str_le cs ds else (of_char c :: nat) < of_char d)"

definition row_le :: "row \<Rightarrow> row \<Rightarrow> bool" where
  "row_le r s =
     (case (week r, week s) of
        (Some a, Some b) \<Rightarrow> a < b \<or> (a = b \<and> str_le (article_id r) (article_id s))
      | (Some a, None) \<Rightarrow> True
      | (None, Some b) \<Rightarrow> False
      | (None, None) \<Rightarrow> str_le (article_id r) (article_id s))"

fun insort_row :: "row \<Rightarrow> row list \<Rightarrow> row list" where
  "insort_row r [] = [r]"
| "insort_row r (x # xs) = (if row_le r x then r # x # xs else x # insort_row r xs)"

definition order_by_week_article_id :: "row list \<Rightarrow> row list" where
  "order_by_week_article_id rs = foldr insort_row rs []"

section \<open>The server (server.js)\<close>

text \<open>
  \<open>pool\<close> says whether a connection pool was created (\<open>DATABASE_URL\<close> was set),
  \<open>dbReady\<close> is the flag \<open>initDB\<close> sets, and \<open>database\<close> is the PostgreSQL database
  behind the pool. The model covers a database that answers every statement it is sent;
  a lost connection is outside it.
\<close>

record server =
  pool :: bool
  dbReady :: bool
  database :: db

text \<open>\<open>initDB\<close> (server.js, lines 24-61); \<open>ok\<close> says whether connecting and creating the
  table succeeded.\<close>

definition initDB :: "bool \<Rightarrow> server \<Rightarrow> server" where
  "initDB ok s = (if \<not> pool s then s else if ok then s\<lparr>dbReady := True\<rparr> else s)"

text \<open>The guard \<open>!pool || !dbReady\<close> that opens every route.\<close>

definition unavailable :: "server \<Rightarrow> bool" where
  "unavailable s = (\<not> pool s \<or> \<not> dbReady s)"

text \<open>
  A response: the HTTP status and the JSON body. \<open>Counts\<close> is an object of counters, in
  the order of its keys; \<open>Pg_error\<close> stands for \<open>{ error: err.message }\<close> of a database
  error and \<open>Type_error\<close> for that of a JavaScript \<open>TypeError\<close>.
\<close>

datatype body =
    Rows "row list"
  | Row row
  | Error_msg string
  | Pg_error pg_error
  | Type_error
  | Success
  | Success_count nat
  | Counts "(string \<times> nat) list"

type_synonym response = "nat \<times> body"

definition not_available :: response where
  "not_available = (503, Error_msg ''Database not available'')"

text \<open>\<open>GET /api/articles\<close> (server.js, lines 69-80).\<close>

definition get_api_articles :: "server \<Rightarrow> response" where
  "get_api_articles s =
     (if unavailable s then (200, Rows [])
      else (200, Rows (order_by_week_article_id (sf_articles (database s)))))"

text \<open>\<open>GET /api/articles/:id\<close> (server.js, lines 82-95).\<close>

definition get_api_articles_id :: "int \<Rightarrow> server \<Rightarrow> response" where
  "get_api_articles_id i s =
     (if unavailable s then not_available
      else (case int4 (Some i) of
              Inl e \<Rightarrow> (500, Pg_error e)
            | Inr _ \<Rightarrow>
                (case filter (\<lambda>r. row_id r = i) (sf_articles (database s)) of
                   [] \<Rightarrow> (404, Error_msg ''Article not found'')
                 | r # _ \<Rightarrow> (200, Row r))))"

text \<open>The body of \<open>POST /api/articles\<close>, as line 101 destructures it.\<close>

record post_body =
  b_article_id :: "string js"
  b_title :: "string js"
  b_keyword :: "string js"
  b_intent :: "string js"
  b_funnel :: "string js"
  b_description :: "string js"
  b_priority :: "string js"
  b_word_count :: "int js"
  b_category :: "string js"
  b_week :: "int js"
  b_status :: "string js"
  b_notes :: "string js"

text \<open>The statement of \<open>POST /api/articles\<close> (server.js, lines 103-121). The eleventh
  parameter is \<open>status || 'planned'\<close>.\<close>

definition upsert_query :: "nat \<Rightarrow> post_body \<Rightarrow> db \<Rightarrow> (pg_error + row) \<times> db" where
  "upsert_query now b d =
     insert_on_conflict upsert_set now
       (param (b_article_id b)) (param (b_title b)) (param (b_keyword b))
       (param (b_intent b)) (param (b_funnel b)) (param (b_description b))
       (param (b_priority b)) (param (b_word_count b)) (param (b_category b))
       (param (b_week b)) (param (or_else (b_status b) ''planned''))
       (param (b_notes b)) d"

text \<open>\<open>POST /api/articles\<close> (server.js, lines 97-127).\<close>

definition post_api_articles :: "nat \<Rightarrow> post_body \<Rightarrow> server \<Rightarrow> response \<times> server" where
  "post_api_articles now b s =
     (if unavailable s then (not_available, s)
      else (case upsert_query now b (database s) of
              (Inr r, d) \<Rightarrow> ((200, Row r), s\<lparr>database := d\<rparr>)
            | (Inl e, d) \<Rightarrow> ((500, Pg_error e), s\<lparr>database := d\<rparr>)))"

text \<open>The body of \<open>PATCH /api/articles/:id\<close>, as line 133 destructures it.\<close>

record patch_body =
  p_status :: "string js"
  p_notes :: "string js"
  p_week :: "int js"

text \<open>\<open>PATCH /api/articles/:id\<close> (server.js, lines 129-151).\<close>

definition patch_api_articles_id ::
  "nat \<Rightarrow> int \<Rightarrow> patch_body \<Rightarrow> server \<Rightarrow> response \<times> server" where
  "patch_api_articles_id now i p s =
     (if unavailable s then (not_available, s)
      else (case update_by_id now (param (p_status p)) (param (p_notes p)) (param (p_week p)) i
                   (database s) of
              (Inl e, d) \<Rightarrow> ((500, Pg_error e), s\<lparr>database := d\<rparr>)
            | (Inr [], d) \<Rightarrow> ((404, Error_msg ''Article not found''), s\<lparr>database := d\<rparr>)
            | (Inr (r # _), d) \<Rightarrow> ((200, Row r), s\<lparr>database := d\<rparr>)))"

text \<open>\<open>DELETE /api/articles/:id\<close> (server.js, lines 153-163).\<close>

definition delete_api_articles_id :: "int \<Rightarrow> server \<Rightarrow> response \<times> server" where
  "delete_api_articles_id i s =
     (if unavailable s then (not_available, s)
      else (case int4 (Some i) of
              Inl e \<Rightarrow> ((500, Pg_error e), s)
            | Inr _ \<Rightarrow>
                ((200, Success),
                 s\<lparr>database := (database s)\<lparr>sf_articles :=
                      filter (\<lambda>r. row_id r \<noteq> i) (sf_articles (database s))\<rparr>\<rparr>)))"

text \<open>
  An article object, as the elements of \<open>req.body.articles\<close> and of the view's
  \<open>staticArticles\<close> are read: the bulk route reads \<open>id\<close> and \<open>wordCount\<close> where the
  single route reads \<open>article_id\<close> and \<open>word_count\<close>. The bulk route does not read
  \<open>status\<close>; the view does.
\<close>

record article =
  a_id :: "string js"
  a_title :: "string js"
  a_keyword :: "string js"
  a_intent :: "string js"
  a_funnel :: "string js"
  a_description :: "string js"
  a_priority :: "string js"
  a_wordCount :: "int js"
  a_category :: "string js"
  a_week :: "int js"
  a_status :: "string js"

text \<open>
  The statement of the bulk route for one article (server.js, lines 175-190): ten columns
  are given, so \<open>status\<close> takes its column default \<open>'planned'\<close> and \<open>notes\<close> is \<open>NULL\<close>.
\<close>

definition bulk_query :: "nat \<Rightarrow> article \<Rightarrow> db \<Rightarrow> (pg_error + row) \<times> db" where
  "bulk_query now a d =
     insert_on_conflict bulk_set now
       (param (a_id a)) (param (a_title a)) (param (a_keyword a)) (param (a_intent a))
       (param (a_funnel a)) (param (a_description a)) (param (a_priority a))
       (param (a_wordCount a)) (param (a_category a)) (param (a_week a))
       (Some ''planned'') None d"

text \<open>The loop of lines 174-191: the first failing statement throws and ends it.\<close>

fun bulk_loop :: "nat \<Rightarrow> article list \<Rightarrow> db \<Rightarrow> pg_error option \<times> db" where
  "bulk_loop now [] d = (None, d)"
| "bulk_loop now (a # as) d =
     (case bulk_query now a d of
        (Inl e, d') \<Rightarrow> (Some e, d')
      | (Inr r, d') \<Rightarrow> bulk_loop now as d')"

text \<open>
  \<open>POST /api/articles/bulk\<close> (server.js, lines 166-201); the argument is the
  \<open>articles\<close> property of the body. \<open>COMMIT\<close> keeps the database the loop leaves;
  \<open>ROLLBACK\<close> restores the rows of before \<open>BEGIN\<close>. Iterating over an absent
  \<open>articles\<close> throws a \<open>TypeError\<close> inside the \<open>try\<close>.
\<close>

definition post_api_articles_bulk ::
  "nat \<Rightarrow> article list js \<Rightarrow> server \<Rightarrow> response \<times> server" where
  "post_api_articles_bulk now arts s =
     (if unavailable s then (not_available, s)
      else (case arts of
              Val as \<Rightarrow>
                (case bulk_loop now as (database s) of
                   (None, d) \<Rightarrow> ((200, Success_count (length as)), s\<lparr>database := d\<rparr>)
                 | (Some e, d) \<Rightarrow>
                     ((500, Pg_error e),
                      s\<lparr>database := (database s)\<lparr>sf_articles_id_seq := sf_articles_id_seq d\<rparr>\<rparr>))
            | _ \<Rightarrow> ((500, Type_error), s)))"

text \<open>\<open>GET /api/stats\<close> (server.js, lines 204-225). node-postgres returns each
  \<open>COUNT(*)\<close> as a decimal string; the model keeps the number it denotes.\<close>

definition count_filter :: "(row \<Rightarrow> bool) \<Rightarrow> row list \<Rightarrow> nat" where
  "count_filter P rs = length (filter P rs)"

definition get_api_stats :: "server \<Rightarrow> response" where
  "get_api_stats s =
     (if unavailable s then
        (200, Counts [(''total'', 0), (''high_priority'', 0), (''medium_priority'', 0),
                      (''low_priority'', 0)])
      else
        (let rs = sf_articles (database s) in
         (200, Counts
           [(''total'', length rs),
            (''high_priority'', count_filter (\<lambda>r. priority r = Some ''High'') rs),
            (''medium_priority'', count_filter (\<lambda>r. priority r = Some ''Medium'') rs),
            (''low_priority'', count_filter (\<lambda>r. priority r = Some ''Low'') rs),
            (''planned'', count_filter (\<lambda>r. status r = Some ''planned'') rs),
            (''in_progress'', count_filter (\<lambda>r. status r = Some ''in_progress'') rs),
            (''written'', count_filter (\<lambda>r. status r = Some ''written'') rs),
            (''published'', count_filter (\<lambda>r. status r = Some ''published'') rs)])))"

section \<open>The view (public/app.js)\<close>

text \<open>
  An element of the view's \<open>articles\<close> is a row as the server sent it or an element of
  \<open>staticArticles\<close>. The functions below are the property reads the view makes on it.
\<close>

datatype item = Fetched row | Static article

definition of_column :: "'a option \<Rightarrow> 'a js" where
  "of_column c = (case c of None \<Rightarrow> Null | Some v \<Rightarrow> Val v)"

fun title_of :: "item \<Rightarrow> string js" where
  "title_of (Fetched r) = Val (title r)"
| "title_of (Static a) = a_title a"

fun keyword_of :: "item \<Rightarrow> string js" where
  "keyword_of (Fetched r) = of_column (keyword r)"
| "keyword_of (Static a) = a_keyword a"

fun description_of :: "item \<Rightarrow> string js" where
  "description_of (Fetched r) = of_column (description r)"
| "description_of (Static a) = a_description a"

fun category_of :: "item \<Rightarrow> string js" where
  "category_of (Fetched r) = of_column (category r)"
| "category_of (Static a) = a_category a"

fun priority_of :: "item \<Rightarrow> string js" where
  "priority_of (Fetched r) = of_column (priority r)"
| "priority_of (Static a) = a_priority a"

fun funnel_of :: "item \<Rightarrow> string js" where
  "funnel_of (Fetched r) = of_column (funnel r)"
| "funnel_of (Static a) = a_funnel a"

fun status_of :: "item \<Rightarrow> string js" where
  "status_of (Fetched r) = of_column (status r)"
| "status_of (Static a) = a_status a"

fun week_of :: "item \<Rightarrow> int js" where
  "week_of (Fetched r) = of_column (week r)"
| "week_of (Static a) = a_week a"

text \<open>The two module variables of lines 2-3.\<close>

record view =
  articles :: "item list"
  filteredArticles :: "item list"

text \<open>
  The \<open>catch\<close> block of \<open>loadArticles\<close> (lines 59-66); \<open>staticArticles\<close> is \<open>None\<close> when
  \<open>typeof staticArticles === 'undefined'\<close>.
\<close>

definition fallback :: "article list option \<Rightarrow> view \<Rightarrow> view" where
  "fallback staticArticles v =
     (case staticArticles of
        Some xs \<Rightarrow> \<lparr>articles = map Static xs, filteredArticles = map Static xs\<rparr>
      | None \<Rightarrow> v)"

text \<open>
  \<open>seedArticles\<close> (lines 69-80). \<open>up\<close> says whether the request reaches the server and
  its answer the view; otherwise \<open>fetch\<close> throws and the error is logged. The answer is
  not read.
\<close>

definition seedArticles :: "bool \<Rightarrow> nat \<Rightarrow> article list option \<Rightarrow> server \<Rightarrow> server" where
  "seedArticles up now staticArticles s =
     (case staticArticles of
        None \<Rightarrow> s
      | Some xs \<Rightarrow> if up then snd (post_api_articles_bulk now (Val xs) s) else s)"

text \<open>
  \<open>loadArticles\<close> (lines 46-67). \<open>up1\<close>, \<open>up2\<close> and \<open>up3\<close> say whether the first fetch,
  the seeding request and the second fetch get through; a fetch that does not throws, and
  control passes to the \<open>catch\<close> block. A body that is not an array cannot be spread and
  ends there too (the list route of the model always answers with an array).
\<close>

definition loadArticles ::
  "bool \<Rightarrow> bool \<Rightarrow> bool \<Rightarrow> nat \<Rightarrow> article list option \<Rightarrow> server \<Rightarrow> view \<Rightarrow> view \<times> server" where
  "loadArticles up1 up2 up3 now staticArticles s v =
     (if \<not> up1 then (fallback staticArticles v, s)
      else (case snd (get_api_articles s) of
              Rows data \<Rightarrow>
                if length data = 0 then
                  (let s' = seedArticles up2 now staticArticles s in
                   if \<not> up3 then (fallback staticArticles v, s')
                   else (case snd (get_api_articles s') of
                           Rows data2 \<Rightarrow>
                             (\<lparr>articles = map Fetched data2,
                               filteredArticles = map Fetched data2\<rparr>, s')
                         | _ \<Rightarrow> (fallback staticArticles v, s')))
                else (\<lparr>articles = map Fetched data, filteredArticles = map Fetched data\<rparr>, s)
            | _ \<Rightarrow> (fallback staticArticles v, s)))"

text \<open>
  The values of the five filter inputs and of the \<open>view-mode\<close> select; an input that
  is not set has the value \<open>''\<close>.
\<close>

record filters =
  search :: string
  category_filter :: string
  priority_filter :: string
  funnel_filter :: string
  status_filter :: string
  view_mode :: string

datatype js_error = TypeError

text \<open>\<open>toLowerCase\<close> on ASCII text.\<close>

definition lower_char :: "char \<Rightarrow> char" where
  "lower_char c =
     (if 65 \<le> (of_char c :: nat) \<and> (of_char c :: nat) \<le> 90
      then char_of ((of_char c :: nat) + 32) else c)"

definition toLowerCase :: "string \<Rightarrow> string" where
  "toLowerCase s = map lower_char s"

text \<open>\<open>s.includes(t)\<close>: \<open>t\<close> starts at some position of \<open>s\<close>.\<close>

fun includes' :: "string \<Rightarrow> string \<Rightarrow> bool" where
  "includes' [] t = (t = [])"
| "includes' (c # cs) t = (prefix t (c # cs) \<or> includes' cs t)"

text \<open>\<open>x && x.toLowerCase().includes(search)\<close>, as a condition.\<close>

definition and_includes :: "string js \<Rightarrow> string \<Rightarrow> bool" where
  "and_includes x s = (case x of Val t \<Rightarrow> t \<noteq> [] \<and> includes' (toLowerCase t) s | _ \<Rightarrow> False)"

text \<open>
  The callback of \<open>articles.filter\<close> (lines 119-130), \<open>s\<close> being the lower-cased search
  text. Reading \<open>toLowerCase\<close> of a title that is \<open>undefined\<close> or \<open>null\<close> throws.
\<close>

definition matchesSearch :: "string \<Rightarrow> item \<Rightarrow> js_error + bool" where
  "matchesSearch s a =
     (if s = [] then Inr True
      else (case title_of a of
              Val t \<Rightarrow>
                Inr (includes' (toLowerCase t) s \<or> and_includes (keyword_of a) s
                     \<or> and_includes (description_of a) s)
            | _ \<Rightarrow> Inl TypeError))"

definition matchesCategory :: "filters \<Rightarrow> item \<Rightarrow> bool" where
  "matchesCategory f a = (category_filter f = [] \<or> category_of a = Val (category_filter f))"

definition matchesPriority :: "filters \<Rightarrow> item \<Rightarrow> bool" where
  "matchesPriority f a = (priority_filter f = [] \<or> priority_of a = Val (priority_filter f))"

definition matchesFunnel :: "filters \<Rightarrow> item \<Rightarrow> bool" where
  "matchesFunnel f a = (funnel_filter f = [] \<or> funnel_of a = Val (funnel_filter f))"

definition matchesStatus :: "filters \<Rightarrow> item \<Rightarrow> bool" where
  "matchesStatus f a = (status_filter f = [] \<or> status_of a = Val (status_filter f))"

definition keep :: "filters \<Rightarrow> item \<Rightarrow> js_error + bool" where
  "keep f a =
     (case matchesSearch (toLowerCase (search f)) a of
        Inl e \<Rightarrow> Inl e
      | Inr m \<Rightarrow>
          Inr (m \<and> matchesCategory f a \<and> matchesPriority f a \<and> matchesFunnel f a
               \<and> matchesStatus f a))"

text \<open>\<open>Array.prototype.filter\<close> with a callback that may throw.\<close>

fun filter_js :: "('a \<Rightarrow> js_error + bool) \<Rightarrow> 'a list \<Rightarrow> js_error + 'a list" where
  "filter_js p [] = Inr []"
| "filter_js p (x # xs) =
     (case p x of
        Inl e \<Rightarrow> Inl e
      | Inr b \<Rightarrow>
          (case filter_js p xs of
             Inl e \<Rightarrow> Inl e
           | Inr ys \<Rightarrow> Inr (if b then x # ys else ys)))"

text \<open>
  \<open>applyFilters\<close> (lines 112-133), up to its call of \<open>render\<close>: an exception leaves
  \<open>filteredArticles\<close> as it was.
\<close>

definition applyFilters :: "filters \<Rightarrow> view \<Rightarrow> js_error + view" where
  "applyFilters f v =
     (case filter_js (keep f) (articles v) of
        Inl e \<Rightarrow> Inl e
      | Inr xs \<Rightarrow> Inr (v\<lparr>filteredArticles := xs\<rparr>))"

subsection \<open>Rendering\<close>

text \<open>
  The three render functions build the markup of \<open>content-area\<close>. The markup of one
  article, of one week and of one category (the inner template literals) is a parameter
  of the model: the text each template produces is not interpreted here. So is the
  order in which the engine's \<open>sort\<close> leaves an array when the comparator is not
  consistent (\<open>engineSort\<close>).
\<close>

record templates =
  listCard :: "item \<Rightarrow> string"
  weekBlock :: "int js \<Rightarrow> item list \<Rightarrow> string"
  categoryBlock :: "string \<Rightarrow> item list \<Rightarrow> string"
  engineSort :: "int js list \<Rightarrow> int js list"

definition no_match :: string where
  \<open>no_match = ''<p class="text-gray-500 text-center py-8">No articles match your filters</p>''\<close>

text \<open>\<open>renderListView\<close> (lines 168-202).\<close>

definition renderListView :: "templates \<Rightarrow> item list \<Rightarrow> string" where
  "renderListView t fa =
     (let html = concat (map (listCard t) fa)
      in if html \<noteq> [] then html else no_match)"

text \<open>
  Grouping into an object of arrays (lines 205-209 and 246-250), as the list of its
  entries in the order the keys were first added.
\<close>

fun push_to :: "'k \<Rightarrow> 'a \<Rightarrow> ('k \<times> 'a list) list \<Rightarrow> ('k \<times> 'a list) list" where
  "push_to k a [] = [(k, [a])]"
| "push_to k a ((k', as) # g) =
     (if k = k' then (k', as @ [a]) # g else (k', as) # push_to k a g)"

definition group_by :: "('a \<Rightarrow> 'k) \<Rightarrow> 'a list \<Rightarrow> ('k \<times> 'a list) list" where
  "group_by key xs = foldl (\<lambda>g a. push_to (key a) a g) [] xs"

definition entry :: "('k \<times> 'a list) list \<Rightarrow> 'k \<Rightarrow> 'a list" where
  "entry g k = (case map_of g k of Some as \<Rightarrow> as | None \<Rightarrow> [])"

text \<open>
  \<open>Object.keys(weeks)\<close>. A week is the key \<open>String(article.week)\<close>, kept here as the
  value it was made from. The keys that are array indices (the integers from 0 to
  \<open>2^32 - 2\<close>) come first, in ascending order, then the other keys in the order they were
  added.
\<close>

fun index_key :: "int js \<Rightarrow> int list" where
  "index_key (Val n) = (if 0 \<le> n \<and> n < 4294967295 then [n] else [])"
| "index_key k = []"

definition object_keys :: "int js list \<Rightarrow> int js list" where
  "object_keys ks =
     map Val (sort (concat (map index_key ks))) @ filter (\<lambda>k. index_key k = []) ks"

text \<open>
  \<open>.sort((a, b) => parseInt(a) - parseInt(b))\<close>. A key made from an integer (of fewer
  than 22 digits, which \<open>String\<close> writes in full) is read back by \<open>parseInt\<close>, and such
  keys are put in ascending order. With a key \<open>'null'\<close> or \<open>'undefined'\<close> the comparator
  yields \<open>NaN\<close>, it is no longer consistent, and ECMAScript leaves the resulting order to
  the engine: that order is the parameter \<open>engineSort\<close> of the model.
\<close>

fun plain_week :: "int js \<Rightarrow> bool" where
  "plain_week (Val n) = (- 1000000000000000000000 < n \<and> n < 1000000000000000000000)"
| "plain_week k = False"

fun week_gt :: "int js \<Rightarrow> int js \<Rightarrow> bool" where
  "week_gt (Val a) (Val b) = (a > b)"
| "week_gt x y = False"

fun insert_week :: "int js \<Rightarrow> int js list \<Rightarrow> int js list" where
  "insert_week k [] = [k]"
| "insert_week k (x # xs) = (if week_gt x k then k # x # xs else x # insert_week k xs)"

definition sort_weeks :: "templates \<Rightarrow> int js list \<Rightarrow> int js list" where
  "sort_weeks t ks =
     (if list_all plain_week ks then foldl (\<lambda>acc k. insert_week k acc) [] ks
      else engineSort t ks)"

definition calendar_open :: string where
  \<open>calendar_open = CHR 0x0A # ''    <div class="grid gap-4">'' @ CHR 0x0A # ''      ''\<close>

definition calendar_close :: string where
  \<open>calendar_close = CHR 0x0A # ''    </div>'' @ CHR 0x0A # ''  ''\<close>

text \<open>\<open>renderCalendarView\<close> (lines 204-243).\<close>

definition renderCalendarView :: "templates \<Rightarrow> item list \<Rightarrow> string" where
  "renderCalendarView t fa =
     (let weeks = group_by week_of fa;
          sortedWeeks = sort_weeks t (object_keys (map fst weeks));
          html = calendar_open
                 @ concat (map (\<lambda>w. weekBlock t w (entry weeks w)) sortedWeeks)
                 @ calendar_close
      in if html \<noteq> [] then html else no_match)"

text \<open>
  \<open>renderCategoryView\<close> (lines 245-280). The key of an article is
  \<open>String(article.category)\<close>. \<open>categories\<close> is a plain object, so a key that names a
  property of \<open>Object.prototype\<close> finds that property, which has no \<open>push\<close>: the loop
  throws. \<open>Object.keys(categories).sort()\<close> orders the keys as strings.
\<close>

fun category_key :: "string js \<Rightarrow> string" where
  "category_key (Val s) = s"
| "category_key Null = ''null''"
| "category_key Undefined = ''undefined''"

definition object_prototype :: "string list" where
  "object_prototype =
     [''constructor'', ''__defineGetter__'', ''__defineSetter__'', ''hasOwnProperty'',
      ''__lookupGetter__'', ''__lookupSetter__'', ''isPrototypeOf'', ''propertyIsEnumerable'',
      ''toString'', ''valueOf'', ''__proto__'', ''toLocaleString'']"

fun insert_key :: "string \<Rightarrow> string list \<Rightarrow> string list" where
  "insert_key k [] = [k]"
| "insert_key k (x # xs) = (if str_le k x then k # x # xs else x # insert_key k xs)"

definition sort_keys :: "string list \<Rightarrow> string list" where
  "sort_keys ks = foldr insert_key ks []"

definition renderCategoryView :: "templates \<Rightarrow> item list \<Rightarrow> js_error + string" where
  "renderCategoryView t fa =
     (if list_ex (\<lambda>a. category_key (category_of a) \<in> set object_prototype) fa
      then Inl TypeError
      else
        (let categories = group_by (\<lambda>a. category_key (category_of a)) fa;
             sortedCategories = sort_keys (map fst categories);
             html = concat (map (\<lambda>c. categoryBlock t c (entry categories c)) sortedCategories)
         in Inr (if html \<noteq> [] then html else no_match)))"

text \<open>\<open>render\<close> (lines 150-166): the markup it assigns to \<open>content-area\<close>.\<close>

definition render :: "templates \<Rightarrow> filters \<Rightarrow> view \<Rightarrow> js_error + string" where
  "render t f v =
     (if view_mode f = ''calendar'' then Inr (renderCalendarView t (filteredArticles v))
      else if view_mode f = ''category'' then renderCategoryView t (filteredArticles v)
      else Inr (renderListView t (filteredArticles v)))"

section \<open>Notions of the specification\<close>

text \<open>
  The write of one record of a bulk call fails when its statement ends in an error.
\<close>

definition write_fails :: "nat \<Rightarrow> article \<Rightarrow> db \<Rightarrow> bool" where
  "write_fails now a d = isl (fst (bulk_query now a d))"

text \<open>
  What a \<open>VARCHAR(n)\<close> column holds of a text property: the text, without the spaces
  beyond \<open>n\<close> characters; nothing when the property is absent, \<open>null\<close> or does not fit.
\<close>

definition column_text :: "nat \<Rightarrow> string js \<Rightarrow> string option" where
  "column_text n x = (case varchar n (param x) of Inr v \<Rightarrow> v | Inl e \<Rightarrow> None)"

text \<open>
  Upsert with defaulted status, as the specification words it (4.1), for one record of
  a bulk call: look the record up by its articleId. If absent, insert a new record with
  a freshly assigned internal id, the status \<open>planned\<close> and no notes. If present,
  replace the nine descriptive fields and keep the stored status and notes. Refresh
  \<open>updatedAt\<close>. The internal id is the next value of the sequence, which every upsert
  draws. A record without articleId or title has nothing to write.
\<close>

definition upsert_defaulted :: "nat \<Rightarrow> article \<Rightarrow> db \<Rightarrow> db" where
  "upsert_defaulted now a d =
     (case (column_text 10 (a_id a), param (a_title a)) of
        (Some k, Some t) \<Rightarrow>
          if list_ex (\<lambda>r. article_id r = k) (sf_articles d)
          then \<lparr> sf_articles =
                   map (\<lambda>r. if article_id r = k
                             then r\<lparr> title := t,
                                    keyword := column_text 255 (a_keyword a),
                                    intent := column_text 100 (a_intent a),
                                    funnel := column_text 50 (a_funnel a),
                                    description := param (a_description a),
                                    priority := column_text 20 (a_priority a),
                                    word_count := param (a_wordCount a),
                                    category := column_text 100 (a_category a),
                                    week := param (a_week a),
                                    updated_at := now \<rparr>
                             else r)
                       (sf_articles d),
                 sf_articles_id_seq = sf_articles_id_seq d + 1 \<rparr>
          else \<lparr> sf_articles =
                   sf_articles d @
                   [\<lparr> row_id = sf_articles_id_seq d + 1, article_id = k, title = t,
                      keyword = column_text 255 (a_keyword a),
                      intent = column_text 100 (a_intent a),
                      funnel = column_text 50 (a_funnel a),
                      description = param (a_description a),
                      priority = column_text 20 (a_priority a),
                      word_count = param (a_wordCount a),
                      category = column_text 100 (a_category a),
                      week = param (a_week a),
                      status = Some ''planned'', notes' = None,
                      created_at = now, updated_at = now \<rparr>],
                 sf_articles_id_seq = sf_articles_id_seq d + 1 \<rparr>
      | _ \<Rightarrow> d)"

text \<open>
  The single-route body that corresponds to an article of a bulk call: the same
  values under the single route's property names, \<open>status\<close> and \<open>notes\<close> omitted.
\<close>

definition as_post_body :: "article \<Rightarrow> post_body" where
  "as_post_body a =
     \<lparr> b_article_id = a_id a, b_title = a_title a, b_keyword = a_keyword a,
       b_intent = a_intent a, b_funnel = a_funnel a, b_description = a_description a,
       b_priority = a_priority a, b_word_count = a_wordCount a,
       b_category = a_category a, b_week = a_week a,
       b_status = Undefined, b_notes = Undefined \<rparr>"

text \<open>
  The filter as the specification words it. The free-text predicate: the search text,
  ignoring case, is a substring of the title, the keyword or the description. Every other
  predicate: equality with the record's field. A filter that is not set matches every
  record.
\<close>

fun texts :: "string js \<Rightarrow> string list" where
  "texts (Val t) = [t]"
| "texts _ = []"

definition text_match :: "string \<Rightarrow> item \<Rightarrow> bool" where
  "text_match q a =
     list_ex (\<lambda>t. sublist (toLowerCase q) (toLowerCase t))
       (texts (title_of a) @ texts (keyword_of a) @ texts (description_of a))"

definition equals_or_unset :: "string \<Rightarrow> string js \<Rightarrow> bool" where
  "equals_or_unset wanted field = (wanted = [] \<or> field = Val wanted)"

definition visible :: "filters \<Rightarrow> item \<Rightarrow> bool" where
  "visible f a =
     ((search f = [] \<or> text_match (search f) a)
      \<and> equals_or_unset (category_filter f) (category_of a)
      \<and> equals_or_unset (priority_filter f) (priority_of a)
      \<and> equals_or_unset (funnel_filter f) (funnel_of a)
      \<and> equals_or_unset (status_filter f) (status_of a))"

text \<open>One counter of a stats answer, by its key.\<close>

definition counter :: "string \<Rightarrow> response \<Rightarrow> nat option" where
  "counter k r = (case snd r of Counts cs \<Rightarrow> map_of cs k | _ \<Rightarrow> None)"

section \<open>Sample data\<close>

definition empty_db :: db where
  "empty_db = \<lparr>sf_articles = [], sf_articles_id_seq = 0\<rparr>"

text \<open>A server started without \<open>DATABASE_URL\<close>, and one whose \<open>initDB\<close> succeeded.\<close>

definition no_database :: server where
  "no_database = \<lparr>pool = False, dbReady = False, database = empty_db\<rparr>"

definition fresh_server :: server where
  "fresh_server = \<lparr>pool = True, dbReady = True, database = empty_db\<rparr>"

definition widget :: article where
  "widget =
     \<lparr> a_id = Val ''A1'', a_title = Val ''Widget'', a_keyword = Val ''widgets'',
       a_intent = Val ''Commercial'', a_funnel = Val ''MOFU'', a_description = Null,
       a_priority = Val ''High'', a_wordCount = Val 1500, a_category = Val ''A'',
       a_week = Val 5, a_status = Undefined \<rparr>"

definition gadget :: article where
  "gadget =
     \<lparr> a_id = Val ''A2'', a_title = Val ''Gadget'', a_keyword = Null,
       a_intent = Val ''Informational'', a_funnel = Val ''TOFU'',
       a_description = Val ''All about gadgets'', a_priority = Val ''Low'',
       a_wordCount = Val 800, a_category = Val ''B'', a_week = Val 1,
       a_status = Undefined \<rparr>"

text \<open>An article without a title: its row violates \<open>title TEXT NOT NULL\<close>.\<close>

definition untitled :: article where
  "untitled = gadget\<lparr>a_id := Val ''A3'', a_title := Null\<rparr>"

text \<open>A stored row for \<open>A1\<close> that has been written and annotated.\<close>

definition written_row :: row where
  "written_row =
     \<lparr> row_id = 1, article_id = ''A1'', title = ''Widget'', keyword = Some ''widgets'',
       intent = Some ''Commercial'', funnel = Some ''MOFU'', description = None,
       priority = Some ''High'', word_count = Some 1500, category = Some ''A'',
       week = Some 5, status = Some ''written'', notes' = Some ''draft ready'',
       created_at = 3, updated_at = 4 \<rparr>"

definition planner :: server where
  "planner =
     \<lparr>pool = True, dbReady = True,
      database = \<lparr>sf_articles = [written_row], sf_articles_id_seq = 1\<rparr>\<rparr>"

definition blank_view :: view where
  "blank_view = \<lparr>articles = [], filteredArticles = []\<rparr>"

section \<open>Lemmas about the statements\<close>

lemma check_Inl_iff:
  "check x f = Inl e \<longleftrightarrow> x = Inl e \<or> (\<exists>v. x = Inr v \<and> f v = Inl e)"
  by (cases x) (simp_all add: check_def)

lemma check_Inr_iff:
  "check x f = Inr y \<longleftrightarrow> (\<exists>v. x = Inr v \<and> f v = Inr y)"
  by (cases x) (simp_all add: check_def)

lemma not_null_Inr_iff: "not_null col v = Inr x \<longleftrightarrow> v = Some x"
  by (cases v) (simp_all add: not_null_def)

lemma int4_Inr: "int4 v = Inr v' \<Longrightarrow> v' = v"
  by (auto simp: int4_def split: option.splits if_splits)

lemma find_None_list_ex: "find P xs = None \<longleftrightarrow> \<not> list_ex P xs"
  by (auto simp: find_None_iff list_ex_iff)

lemma find_Some_list_ex: "find P xs = Some x \<Longrightarrow> list_ex P xs"
  by (auto simp: find_Some_iff list_ex_iff)

text \<open>When an insert fails.\<close>

lemma isl_insert:
  "isl (fst (insert_on_conflict f now aid ti kw it fu de pr wc ca wk st nt d)) \<longleftrightarrow>
   isl (int4 wc) \<or> isl (int4 wk) \<or> isl (sf_articles_coerce aid kw it fu pr ca st) \<or>
   (\<exists>c. sf_articles_coerce aid kw it fu pr ca st = Inr c \<and> fst c = None) \<or> ti = None"
proof (cases "int4 wc")
  case (Inl e)
  then show ?thesis by (simp add: insert_on_conflict_def check_def)
next
  case wc: (Inr wc')
  show ?thesis
  proof (cases "int4 wk")
    case (Inl e)
    with wc show ?thesis by (simp add: insert_on_conflict_def check_def)
  next
    case wk: (Inr wk')
    show ?thesis
    proof (cases "sf_articles_coerce aid kw it fu pr ca st")
      case (Inl e)
      with wc wk show ?thesis by (simp add: insert_on_conflict_def check_def)
    next
      case (Inr c)
      obtain aid' kw' it' fu' pr' ca' st' where c: "c = (aid', kw', it', fu', pr', ca', st')"
        by (cases c)
      from wc wk Inr c show ?thesis
        by (simp add: insert_on_conflict_def check_def sf_articles_tuple_def not_null_def Let_def
            split: option.splits)
    qed
  qed
qed

lemma write_fails_indep: "write_fails now a d = write_fails now' a d'"
  by (simp add: write_fails_def bulk_query_def isl_insert)

lemma coerce_Inr:
  "sf_articles_coerce aid kw it fu pr ca st = Inr (aid', kw', it', fu', pr', ca', st') \<longleftrightarrow>
   varchar 10 aid = Inr aid' \<and> varchar 255 kw = Inr kw' \<and> varchar 100 it = Inr it' \<and>
   varchar 50 fu = Inr fu' \<and> varchar 20 pr = Inr pr' \<and> varchar 100 ca = Inr ca' \<and>
   varchar 50 st = Inr st'"
  by (auto simp: sf_articles_coerce_def check_Inr_iff)

lemma column_text_Inr: "varchar n (param x) = Inr v \<Longrightarrow> column_text n x = v"
  by (simp add: column_text_def)

text \<open>A write that does not fail does what the specification's upsert does.\<close>

lemma bulk_query_refines:
  assumes ok: "\<not> write_fails now a d"
  shows "snd (bulk_query now a d) = upsert_defaulted now a d"
proof -
  from ok have n: "\<not> isl (int4 (param (a_wordCount a)))" "\<not> isl (int4 (param (a_week a)))"
    "\<not> isl (sf_articles_coerce (param (a_id a)) (param (a_keyword a)) (param (a_intent a))
              (param (a_funnel a)) (param (a_priority a)) (param (a_category a))
              (Some ''planned''))"
    "\<And>c. sf_articles_coerce (param (a_id a)) (param (a_keyword a)) (param (a_intent a))
              (param (a_funnel a)) (param (a_priority a)) (param (a_category a))
              (Some ''planned'') = Inr c \<Longrightarrow> fst c \<noteq> None"
    "param (a_title a) \<noteq> None"
    by (simp_all add: write_fails_def bulk_query_def isl_insert)
  from n(1) obtain wc' where wc: "int4 (param (a_wordCount a)) = Inr wc'"
    by (cases "int4 (param (a_wordCount a))") simp_all
  from n(2) obtain wk' where wk: "int4 (param (a_week a)) = Inr wk'"
    by (cases "int4 (param (a_week a))") simp_all
  from n(3) obtain c where
    co: "sf_articles_coerce (param (a_id a)) (param (a_keyword a)) (param (a_intent a))
              (param (a_funnel a)) (param (a_priority a)) (param (a_category a))
              (Some ''planned'') = Inr c"
    by (cases "sf_articles_coerce (param (a_id a)) (param (a_keyword a)) (param (a_intent a))
              (param (a_funnel a)) (param (a_priority a)) (param (a_category a))
              (Some ''planned'')") simp_all
  from n(4)[OF co] obtain k where k: "fst c = Some k" by (cases "fst c") simp_all
  from n(5) obtain t where t: "param (a_title a) = Some t"
    by (cases "param (a_title a)") simp_all
  obtain aid' kw' it' fu' pr' ca' st' where c: "c = (aid', kw', it', fu', pr', ca', st')"
    by (cases c)
  from co c have v: "varchar 10 (param (a_id a)) = Inr aid'"
    "varchar 255 (param (a_keyword a)) = Inr kw'" "varchar 100 (param (a_intent a)) = Inr it'"
    "varchar 50 (param (a_funnel a)) = Inr fu'" "varchar 20 (param (a_priority a)) = Inr pr'"
    "varchar 100 (param (a_category a)) = Inr ca'" "varchar 50 (Some ''planned'') = Inr st'"
    by (simp_all add: coerce_Inr)
  from v(7) have st: "st' = Some ''planned''" by (simp add: varchar_def)
  from k c have aid: "aid' = Some k" by simp
  note ct = column_text_Inr[OF v(1)] column_text_Inr[OF v(2)] column_text_Inr[OF v(3)]
    column_text_Inr[OF v(4)] column_text_Inr[OF v(5)] column_text_Inr[OF v(6)]
  note i4 = int4_Inr[OF wc] int4_Inr[OF wk]
  show ?thesis
  proof (cases "list_ex (\<lambda>r. article_id r = k) (sf_articles d)")
    case True
    then obtain old where "find (\<lambda>r. article_id r = k) (sf_articles d) = Some old"
      by (cases "find (\<lambda>r. article_id r = k) (sf_articles d)") (simp_all add: find_None_list_ex)
    with True wc wk co c aid st t ct i4 show ?thesis
      by (simp add: bulk_query_def insert_on_conflict_def check_def sf_articles_tuple_def
          not_null_def Let_def upsert_defaulted_def bulk_set_def)
  next
    case False
    then have "find (\<lambda>r. article_id r = k) (sf_articles d) = None"
      by (simp add: find_None_list_ex)
    with False wc wk co c aid st t ct i4 show ?thesis
      by (simp add: bulk_query_def insert_on_conflict_def check_def sf_articles_tuple_def
          not_null_def Let_def upsert_defaulted_def)
  qed
qed

lemma write_ok_key:
  assumes ok: "\<not> write_fails now a d"
  shows "\<exists>k t. column_text 10 (a_id a) = Some k \<and> param (a_title a) = Some t"
proof -
  from ok have n:
    "\<not> isl (sf_articles_coerce (param (a_id a)) (param (a_keyword a)) (param (a_intent a))
              (param (a_funnel a)) (param (a_priority a)) (param (a_category a))
              (Some ''planned''))"
    "\<And>c. sf_articles_coerce (param (a_id a)) (param (a_keyword a)) (param (a_intent a))
              (param (a_funnel a)) (param (a_priority a)) (param (a_category a))
              (Some ''planned'') = Inr c \<Longrightarrow> fst c \<noteq> None"
    "param (a_title a) \<noteq> None"
    by (simp_all add: write_fails_def bulk_query_def isl_insert)
  from n(1) obtain c where
    co: "sf_articles_coerce (param (a_id a)) (param (a_keyword a)) (param (a_intent a))
              (param (a_funnel a)) (param (a_priority a)) (param (a_category a))
              (Some ''planned'') = Inr c"
    by (cases "sf_articles_coerce (param (a_id a)) (param (a_keyword a)) (param (a_intent a))
              (param (a_funnel a)) (param (a_priority a)) (param (a_category a))
              (Some ''planned'')") simp_all
  obtain aid' kw' it' fu' pr' ca' st' where c: "c = (aid', kw', it', fu', pr', ca', st')"
    by (cases c)
  from n(2)[OF co] c obtain k where "aid' = Some k" by (cases aid') simp_all
  moreover from co c have "varchar 10 (param (a_id a)) = Inr aid'" by (simp add: coerce_Inr)
  ultimately have "column_text 10 (a_id a) = Some k" by (simp add: column_text_def)
  with n(3) show ?thesis by auto
qed

lemma list_ex_merge:
  assumes "\<And>r. article_id (g r) = article_id r"
  shows "list_ex (\<lambda>r. article_id r = k) (map (\<lambda>r. if article_id r = k' then g r else r) xs)
       = list_ex (\<lambda>r. article_id r = k) xs"
  by (induction xs) (simp_all add: assms)

lemma upsert_defaulted_keeps:
  "list_ex (\<lambda>r. article_id r = k) (sf_articles d) \<Longrightarrow>
   list_ex (\<lambda>r. article_id r = k) (sf_articles (upsert_defaulted now a d))"
  by (simp add: upsert_defaulted_def list_ex_merge split: option.splits)

lemma upsert_defaulted_has:
  assumes "\<not> write_fails now a d"
  shows "list_ex (\<lambda>r. Some (article_id r) = column_text 10 (a_id a))
           (sf_articles (upsert_defaulted now a d))"
proof -
  from write_ok_key[OF assms] obtain k t where
    "column_text 10 (a_id a) = Some k" "param (a_title a) = Some t" by blast
  then show ?thesis
    by (simp add: upsert_defaulted_def list_ex_merge)
qed

lemma fold_keeps:
  "list_ex (\<lambda>r. article_id r = k) (sf_articles d) \<Longrightarrow>
   list_ex (\<lambda>r. article_id r = k) (sf_articles (foldl (\<lambda>d a. upsert_defaulted now a d) d as))"
  by (induction as arbitrary: d) (simp_all add: upsert_defaulted_keeps)

lemma fold_has:
  "\<not> list_ex (\<lambda>a. write_fails now a d0) as \<Longrightarrow>
   list_all (\<lambda>a. list_ex (\<lambda>r. Some (article_id r) = column_text 10 (a_id a))
                    (sf_articles (foldl (\<lambda>d a. upsert_defaulted now a d) d as))) as"
proof (induction as arbitrary: d)
  case Nil
  then show ?case by simp
next
  case (Cons a as)
  from Cons.prems have nf: "\<not> write_fails now a d"
    using write_fails_indep[of now a d now d0] by simp
  from write_ok_key[OF nf] obtain k where k: "column_text 10 (a_id a) = Some k" by blast
  from upsert_defaulted_has[OF nf] k
  have "list_ex (\<lambda>r. article_id r = k) (sf_articles (upsert_defaulted now a d))"
    by (simp add: list_ex_iff) 
  from fold_keeps[OF this, of now as] k
  have "list_ex (\<lambda>r. Some (article_id r) = column_text 10 (a_id a))
          (sf_articles (foldl (\<lambda>d a. upsert_defaulted now a d) (upsert_defaulted now a d) as))"
    by (simp add: list_ex_iff)
  moreover from Cons.prems have rest: "\<not> list_ex (\<lambda>a. write_fails now a d0) as" by simp
  have "list_all (\<lambda>x. list_ex (\<lambda>r. Some (article_id r) = column_text 10 (a_id x))
          (sf_articles (foldl (\<lambda>d a. upsert_defaulted now a d) (upsert_defaulted now a d) as))) as"
    by (rule Cons.IH[OF rest])
  ultimately show ?case by simp
qed

lemma bulk_loop_ok:
  "\<not> list_ex (\<lambda>a. write_fails now a d0) as \<Longrightarrow>
   bulk_loop now as d = (None, foldl (\<lambda>d a. upsert_defaulted now a d) d as)"
proof (induction as arbitrary: d)
  case Nil
  then show ?case by simp
next
  case (Cons a as)
  from Cons.prems have nf: "\<not> write_fails now a d"
    using write_fails_indep[of now a d now d0] by simp
  obtain res d' where q: "bulk_query now a d = (res, d')"
    by (cases "bulk_query now a d")
  with nf obtain r where r: "res = Inr r"
    by (cases res) (simp_all add: write_fails_def)
  from bulk_query_refines[OF nf] q have "d' = upsert_defaulted now a d" by simp
  with q r Cons show ?case by simp
qed

lemma bulk_loop_fail:
  "list_ex (\<lambda>a. write_fails now a d0) as \<Longrightarrow> \<exists>e d'. bulk_loop now as d = (Some e, d')"
proof (induction as arbitrary: d)
  case Nil
  then show ?case by simp
next
  case (Cons a as)
  show ?case
  proof (cases "bulk_query now a d")
    case (Pair res d')
    show ?thesis
    proof (cases res)
      case (Inl e)
      with Pair show ?thesis by simp
    next
      case (Inr r)
      with Pair have "\<not> write_fails now a d" by (simp add: write_fails_def)
      then have "\<not> write_fails now a d0"
        using write_fails_indep[of now a d now d0] by simp
      with Cons.prems have "list_ex (\<lambda>a. write_fails now a d0) as" by simp
      from Cons.IH[OF this, of d'] Pair Inr show ?thesis by simp
    qed
  qed
qed

lemmas sample_defs = widget_def gadget_def untitled_def written_row_def planner_def
  fresh_server_def no_database_def empty_db_def blank_view_def

lemmas stmt_defs = insert_on_conflict_def sf_articles_coerce_def sf_articles_tuple_def check_def
  varchar_def int4_def not_null_def coalesce_def or_else_def

lemma write_fails_samples:
  "\<not> write_fails now widget d" "\<not> write_fails now gadget d" "write_fails now untitled d"
  "\<not> write_fails now (widget\<lparr>a_week := Val 6\<rparr>) d"
  by (simp_all add: write_fails_def bulk_query_def isl_insert sf_articles_coerce_def check_def
      widget_def gadget_def untitled_def int4_def varchar_def)

subsection \<open>The update statement\<close>

lemma list_all2_map_same: "list_all2 P xs (map f xs) \<longleftrightarrow> list_all (\<lambda>x. P x (f x)) xs"
  by (induction xs) simp_all





lemma update_by_id_cases:
  "snd (update_by_id now st nt wk i d) = d \<or>
   (\<exists>st' wk'. varchar 50 st = Inr st' \<and> int4 wk = Inr wk' \<and>
      snd (update_by_id now st nt wk i d) =
        d\<lparr>sf_articles := map (\<lambda>r. if row_id r = i then patch_set now st' nt wk' r else r)
                              (sf_articles d)\<rparr>)"
  by (auto simp: update_by_id_def check_def split: sum.splits)

lemma patch_database:
  "database (snd (patch_api_articles_id now i p s)) =
     (if unavailable s then database s
      else snd (update_by_id now (param (p_status p)) (param (p_notes p)) (param (p_week p)) i
                  (database s)))"
  by (simp add: patch_api_articles_id_def split: prod.splits sum.splits list.splits)

lemma patch_rows_cases:
  "sf_articles (database (snd (patch_api_articles_id now i p s))) = sf_articles (database s) \<or>
   (\<exists>st' wk'. varchar 50 (param (p_status p)) = Inr st' \<and> int4 (param (p_week p)) = Inr wk' \<and>
      sf_articles (database (snd (patch_api_articles_id now i p s))) =
        map (\<lambda>r. if row_id r = i then patch_set now st' (param (p_notes p)) wk' r else r)
            (sf_articles (database s)))"
  using update_by_id_cases[of now "param (p_status p)" "param (p_notes p)" "param (p_week p)" i
      "database s"]
  by (cases "unavailable s") (auto simp: patch_database)





subsection \<open>The filter\<close>

lemma includes_iff_sublist: "includes' s t \<longleftrightarrow> sublist t s"
  by (induction s) (simp_all add: sublist_Cons_right)

lemma toLowerCase_Nil_iff: "toLowerCase s = [] \<longleftrightarrow> s = []"
  by (simp add: toLowerCase_def)

lemma and_includes_texts:
  "s \<noteq> [] \<Longrightarrow> and_includes x s = list_ex (\<lambda>t. sublist s (toLowerCase t)) (texts x)"
  by (cases x) (auto simp: and_includes_def includes_iff_sublist toLowerCase_def)

lemma keep_visible:
  assumes "search f = [] \<or> (\<exists>t. title_of a = Val t)"
  shows "keep f a = Inr (visible f a)"
proof (cases "search f = []")
  case True
  then show ?thesis
    by (simp add: keep_def matchesSearch_def visible_def toLowerCase_Nil_iff equals_or_unset_def
        matchesCategory_def matchesPriority_def matchesFunnel_def matchesStatus_def)
next
  case False
  with assms obtain t where t: "title_of a = Val t" by blast
  from False have ne: "toLowerCase (search f) \<noteq> []" by (simp add: toLowerCase_Nil_iff)
  show ?thesis
    using False t ne
    by (simp add: keep_def matchesSearch_def visible_def equals_or_unset_def text_match_def
        matchesCategory_def matchesPriority_def matchesFunnel_def matchesStatus_def
        and_includes_texts includes_iff_sublist)
qed

lemma filter_js_total:
  "\<forall>x\<in>set xs. p x = Inr (q x) \<Longrightarrow> filter_js p xs = Inr (filter q xs)"
  by (induction xs) simp_all

lemma toLowerCase_samples:
  "toLowerCase ''WIDG'' = ''widg''" "toLowerCase ''Widget'' = ''widget''"
  "toLowerCase ''Gadget'' = ''gadget''" "toLowerCase ''widgets'' = ''widgets''"
  "toLowerCase ''All about gadgets'' = ''all about gadgets''"
  by code_simp+

section \<open>The claims\<close>

text \<open>
  C1. An upsert that carries the articleId of a stored record and omits \<open>status\<close> should
  leave the stored status as it is. The route does not: line 120 passes
  \<open>status || 'planned'\<close>, so \<open>EXCLUDED.status\<close> is never \<open>NULL\<close> and the
  \<open>COALESCE\<close> of line 116 never reaches the stored value. On the sample server, whose
  record \<open>A1\<close> is \<open>written\<close> with a note, posting \<open>A1\<close> again without \<open>status\<close> and
  \<open>notes\<close> leaves one row, keeps the note and resets the status to \<open>planned\<close>.
\<close>

theorem upsert_without_status_resets_it:
  "map (\<lambda>r. (article_id r, status r, notes' r))
       (sf_articles (database (snd (post_api_articles 9 (as_post_body widget) planner))))
     = [(''A1'', Some ''planned'', Some ''draft ready'')]"
  by (simp add: post_api_articles_def upsert_query_def as_post_body_def widget_def planner_def
      written_row_def unavailable_def upsert_set_def stmt_defs)

text \<open>
  C2. The bulk route is all-or-nothing. For every server, clock value and sequence of
  articles: when the server is available and no record's write fails, the call answers
  200 with the count, the database it leaves is the one obtained by applying to each
  record in turn the upsert as the specification words it (\<open>upsert_defaulted\<close>: a row
  appended with status \<open>planned\<close> for an articleId that is not stored, the descriptive
  fields replaced otherwise), and every record of the sequence has a row under its
  articleId in the table; in every other case (a write fails, or the server is
  unavailable) the answer is not 200 and the table holds exactly the rows it held before
  the call. Whether a write fails depends on the record alone (\<open>write_fails_indep\<close>).
\<close>

theorem bulk_all_or_nothing:
  "(if \<not> unavailable s \<and> \<not> list_ex (\<lambda>a. write_fails now a (database s)) as
    then post_api_articles_bulk now (Val as) s =
           ((200, Success_count (length as)),
            s\<lparr>database := foldl (\<lambda>d a. upsert_defaulted now a d) (database s) as\<rparr>) \<and>
         list_all (\<lambda>a. list_ex (\<lambda>r. Some (article_id r) = column_text 10 (a_id a))
                          (sf_articles (database (snd (post_api_articles_bulk now (Val as) s)))))
                  as
    else fst (fst (post_api_articles_bulk now (Val as) s)) \<noteq> 200 \<and>
         sf_articles (database (snd (post_api_articles_bulk now (Val as) s)))
           = sf_articles (database s))"
proof (cases "unavailable s")
  case True
  then show ?thesis by (simp add: post_api_articles_bulk_def not_available_def)
next
  case ready: False
  show ?thesis
  proof (cases "list_ex (\<lambda>a. write_fails now a (database s)) as")
    case True
    from bulk_loop_fail[OF True, of "database s"]
    obtain e d' where "bulk_loop now as (database s) = (Some e, d')" by blast
    with ready True show ?thesis by (simp add: post_api_articles_bulk_def)
  next
    case False
    from bulk_loop_ok[OF False, of "database s"] ready
    have "post_api_articles_bulk now (Val as) s =
           ((200, Success_count (length as)),
            s\<lparr>database := foldl (\<lambda>d a. upsert_defaulted now a d) (database s) as\<rparr>)"
      by (simp add: post_api_articles_bulk_def)
    with fold_has[OF False, of "database s"] ready False show ?thesis by simp
  qed
qed

text \<open>One record without a title among nine valid ones leaves the table as it was. Two
  valid records, the first for the stored articleId \<open>A1\<close> with a new week, the second
  for an articleId that is not stored, leave the row of \<open>A1\<close> with the new week (its
  status and notes kept) and a second row for \<open>A2\<close> with status \<open>planned\<close>.\<close>

theorem bulk_all_or_nothing_witness:
  "sf_articles (database (snd (post_api_articles_bulk 9
      (Val [widget, gadget, widget, gadget, untitled, widget, gadget, widget, gadget, widget])
      planner))) = [written_row]
   \<and> post_api_articles_bulk 9 (Val [widget\<lparr>a_week := Val 6\<rparr>, gadget]) planner =
       ((200, Success_count 2),
        planner\<lparr>database :=
          \<lparr>sf_articles =
             [written_row\<lparr>week := Some 6, updated_at := 9\<rparr>,
              \<lparr>row_id = 3, article_id = ''A2'', title = ''Gadget'', keyword = None,
               intent = Some ''Informational'', funnel = Some ''TOFU'',
               description = Some ''All about gadgets'', priority = Some ''Low'',
               word_count = Some 800, category = Some ''B'', week = Some 1,
               status = Some ''planned'', notes' = None, created_at = 9, updated_at = 9\<rparr>],
           sf_articles_id_seq = 3\<rparr>\<rparr>)"
proof -
  have a: "\<not> unavailable planner" by (simp add: unavailable_def planner_def)
  have 1: "sf_articles (database (snd (post_api_articles_bulk 9
      (Val [widget, gadget, widget, gadget, untitled, widget, gadget, widget, gadget, widget])
      planner))) = sf_articles (database planner)"
    using bulk_all_or_nothing[of planner 9
        "[widget, gadget, widget, gadget, untitled, widget, gadget, widget, gadget, widget]"] a
    by (simp add: write_fails_samples)
  have 2: "post_api_articles_bulk 9 (Val [widget\<lparr>a_week := Val 6\<rparr>, gadget]) planner =
       ((200, Success_count 2),
        planner\<lparr>database := upsert_defaulted 9 gadget
           (upsert_defaulted 9 (widget\<lparr>a_week := Val 6\<rparr>) (database planner))\<rparr>)"
    using bulk_all_or_nothing[of planner 9 "[widget\<lparr>a_week := Val 6\<rparr>, gadget]"] a
    by (simp add: write_fails_samples)
  show ?thesis
    unfolding 1 2
    by (simp add: planner_def upsert_defaulted_def column_text_def
        varchar_def widget_def gadget_def written_row_def)
qed

text \<open>
  C3. While the server is unavailable (no pool, or \<open>dbReady\<close> not set), the list route
  answers 200 with an empty array and the stats route answers 200 with counters that are
  all zero, while the routes that read one record, upsert, patch, delete and bulk-upsert
  answer 503 and leave the server as it was.
\<close>

theorem unavailable_degrades_reads_and_fails_writes:
  "unavailable s \<Longrightarrow>
     get_api_articles s = (200, Rows []) \<and>
     get_api_stats s =
       (200, Counts [(''total'', 0), (''high_priority'', 0), (''medium_priority'', 0),
                     (''low_priority'', 0)]) \<and>
     get_api_articles_id i s = (503, Error_msg ''Database not available'') \<and>
     post_api_articles now b s = ((503, Error_msg ''Database not available''), s) \<and>
     patch_api_articles_id now i p s = ((503, Error_msg ''Database not available''), s) \<and>
     delete_api_articles_id i s = ((503, Error_msg ''Database not available''), s) \<and>
     post_api_articles_bulk now arts s = ((503, Error_msg ''Database not available''), s)"
  by (simp add: get_api_articles_def get_api_stats_def get_api_articles_id_def
      post_api_articles_def patch_api_articles_id_def delete_api_articles_id_def
      post_api_articles_bulk_def not_available_def)

theorem unavailable_degrades_reads_and_fails_writes_witness:
  "unavailable no_database \<and>
   get_api_articles no_database = (200, Rows []) \<and>
   counter ''total'' (get_api_stats no_database) = Some 0 \<and>
   fst (get_api_articles_id 1 no_database) = 503 \<and>
   fst (fst (post_api_articles 9 (as_post_body widget) no_database)) = 503 \<and>
   fst (fst (patch_api_articles_id 9 1
          \<lparr>p_status = Val ''written'', p_notes = Undefined, p_week = Undefined\<rparr>
          no_database)) = 503 \<and>
   fst (fst (delete_api_articles_id 1 no_database)) = 503 \<and>
   post_api_articles_bulk 9 (Val [widget, gadget]) no_database
     = ((503, Error_msg ''Database not available''), no_database)"
proof -
  have u: "unavailable no_database" by (simp add: unavailable_def no_database_def)
  show ?thesis
    using u unavailable_degrades_reads_and_fails_writes[OF u, of 1 9 "as_post_body widget"
        "\<lparr>p_status = Val ''written'', p_notes = Undefined, p_week = Undefined\<rparr>"
        "Val [widget, gadget]"]
    by (simp add: counter_def)
qed

text \<open>
  C4. The bulk route applies to each record the upsert with defaulted status: an insert
  with status \<open>planned\<close> on an articleId that is not stored, the descriptive fields
  replaced and status and notes kept on one that is (\<open>bulk_query_refines\<close>). The single
  upsert route should do the same when status and notes are omitted, and does not: it
  resets the stored status, as shown for C1. On the sample server, whose record \<open>A1\<close> is
  \<open>written\<close>, the bulk call with the record \<open>A1\<close> leaves the status \<open>written\<close> and
  the database that the specification's upsert gives, while the single upsert of the same
  values leaves the status \<open>planned\<close> and another database: the bulk call is not
  equivalent to the corresponding single calls.
\<close>

theorem bulk_keeps_the_status_that_single_upsert_resets:
  "map status (sf_articles (database (snd (post_api_articles_bulk 9 (Val [widget]) planner))))
     = [Some ''written'']
   \<and> map status (sf_articles (database (snd (post_api_articles 9 (as_post_body widget) planner))))
     = [Some ''planned'']
   \<and> database (snd (post_api_articles_bulk 9 (Val [widget]) planner))
     = upsert_defaulted 9 widget (database planner)
   \<and> database (snd (post_api_articles 9 (as_post_body widget) planner))
     \<noteq> upsert_defaulted 9 widget (database planner)"
  by (simp add: post_api_articles_bulk_def bulk_query_def post_api_articles_def upsert_query_def
      as_post_body_def unavailable_def bulk_set_def upsert_set_def stmt_defs sample_defs
      upsert_defaulted_def column_text_def)

text \<open>
  C5. The stats route should always return the total, a counter for each of the three
  priorities and a counter for each of the four statuses. It does so when the server is
  available (on an empty table all eight are zero), but the answer of an unavailable
  server (line 206) holds the total and the three priority counters only: the four status
  counters are absent.
\<close>

theorem stats_unavailable_has_no_status_counters:
  "get_api_stats no_database =
     (200, Counts [(''total'', 0), (''high_priority'', 0), (''medium_priority'', 0),
                   (''low_priority'', 0)])
   \<and> map (\<lambda>k. counter k (get_api_stats no_database))
        [''planned'', ''in_progress'', ''written'', ''published'']
     = [None, None, None, None]
   \<and> map (\<lambda>k. counter k (get_api_stats fresh_server))
        [''total'', ''high_priority'', ''medium_priority'', ''low_priority'',
         ''planned'', ''in_progress'', ''written'', ''published'']
     = [Some 0, Some 0, Some 0, Some 0, Some 0, Some 0, Some 0, Some 0]"
  by (simp add: counter_def get_api_stats_def no_database_def fresh_server_def
      unavailable_def empty_db_def count_filter_def)

text \<open>
  C6. When the fetched list is empty and seeding does not succeed, the view should end up
  with the fallback dataset. With a server that is unavailable and a network that works,
  it does not: the first fetch answers \<open>[]\<close>, the seeding request is answered 503 (no
  exception, so nothing is caught), the second fetch answers \<open>[]\<close> again, and
  \<open>articles\<close> is the empty list. The fallback of lines 62-65 is reached only when a
  fetch throws, as when the first request does not get through.
\<close>

theorem load_from_unavailable_server_is_empty:
  "fst (loadArticles True True True 9 (Some [widget, gadget]) no_database blank_view)
     = \<lparr>articles = [], filteredArticles = []\<rparr>
   \<and> fst (loadArticles False True True 9 (Some [widget, gadget]) no_database blank_view)
     = \<lparr>articles = [Static widget, Static gadget],
        filteredArticles = [Static widget, Static gadget]\<rparr>"
  by (simp add: loadArticles_def get_api_articles_def no_database_def unavailable_def
      seedArticles_def post_api_articles_bulk_def not_available_def fallback_def)

text \<open>
  C7. With no article left by the filters, all three render functions should produce the
  same placeholder. The list and the category function do. The calendar function does
  not: its markup is wrapped in a \<open>div\<close> that is there whatever the weeks are, so
  \<open>html\<close> is never empty, the placeholder of line 242 is never used, and an empty
  filtered list renders as the empty grid container.
\<close>

theorem calendar_never_shows_placeholder:
  "renderListView t [] = no_match \<and>
   renderCategoryView t [] = Inr no_match \<and>
   renderCalendarView t [] = calendar_open @ calendar_close \<and>
   renderCalendarView t fa \<noteq> no_match"
  by (simp add: renderCalendarView_def renderListView_def renderCategoryView_def
      group_by_def sort_weeks_def object_keys_def sort_keys_def calendar_open_def
      calendar_close_def no_match_def Let_def)




text \<open>
  C9. When every article has a title (or no search text is set), \<open>applyFilters\<close> leaves
  in \<open>filteredArticles\<close> exactly the articles, in their order, that satisfy the
  conjunction of the five predicates as the specification words them (\<open>visible\<close>): the
  search text, ignoring case, is a substring of the title, the keyword or the
  description; each other filter equals the article's field; a filter that is not set
  matches every article.
\<close>

theorem applyFilters_is_conjunction:
  assumes "search f = [] \<or> list_all (\<lambda>a. \<exists>t. title_of a = Val t) (articles v)"
  shows "applyFilters f v = Inr (v\<lparr>filteredArticles := filter (visible f) (articles v)\<rparr>)"
proof -
  have "\<forall>a\<in>set (articles v). keep f a = Inr (visible f a)"
    using assms by (auto simp: list_all_iff intro: keep_visible)
  then have "filter_js (keep f) (articles v) = Inr (filter (visible f) (articles v))"
    by (rule filter_js_total)
  then show ?thesis by (simp add: applyFilters_def)
qed

text \<open>The example of the specification: searching \<open>WIDG\<close> among Widget and Gadget
  leaves Widget.\<close>

theorem applyFilters_is_conjunction_witness:
  "applyFilters \<lparr>search = ''WIDG'', category_filter = '''', priority_filter = '''',
       funnel_filter = '''', status_filter = '''', view_mode = ''''\<rparr>
     \<lparr>articles = [Static widget, Static gadget], filteredArticles = []\<rparr>
   = Inr \<lparr>articles = [Static widget, Static gadget], filteredArticles = [Static widget]\<rparr>"
proof -
  have "list_all (\<lambda>a. \<exists>t. title_of a = Val t) [Static widget, Static gadget]"
    by (simp add: widget_def gadget_def)
  from applyFilters_is_conjunction[of "\<lparr>search = ''WIDG'', category_filter = '''',
       priority_filter = '''', funnel_filter = '''', status_filter = '''', view_mode = ''''\<rparr>"
      "\<lparr>articles = [Static widget, Static gadget], filteredArticles = []\<rparr>"] this
  show ?thesis
    by (simp add: visible_def text_match_def equals_or_unset_def widget_def gadget_def
        toLowerCase_samples includes_iff_sublist[symmetric])
qed

text \<open>
  C10. A patch with \<open>status\<close>, \<open>notes\<close> or \<open>week\<close> set to \<open>null\<close> has the answer and
  the effect of the patch with that property omitted; a property that is \<open>null\<close> leaves
  its column as it is in every row; and no patch turns a status, notes or week that is
  stored into \<open>NULL\<close>.
\<close>

theorem patch_null_is_omitted:
  "patch_api_articles_id now i (p\<lparr>p_status := Null\<rparr>) s
     = patch_api_articles_id now i (p\<lparr>p_status := Undefined\<rparr>) s
   \<and> patch_api_articles_id now i (p\<lparr>p_notes := Null\<rparr>) s
     = patch_api_articles_id now i (p\<lparr>p_notes := Undefined\<rparr>) s
   \<and> patch_api_articles_id now i (p\<lparr>p_week := Null\<rparr>) s
     = patch_api_articles_id now i (p\<lparr>p_week := Undefined\<rparr>) s
   \<and> (p_status p = Null \<longrightarrow>
        map status (sf_articles (database (snd (patch_api_articles_id now i p s))))
          = map status (sf_articles (database s)))
   \<and> (p_notes p = Null \<longrightarrow>
        map notes' (sf_articles (database (snd (patch_api_articles_id now i p s))))
          = map notes' (sf_articles (database s)))
   \<and> (p_week p = Null \<longrightarrow>
        map week (sf_articles (database (snd (patch_api_articles_id now i p s))))
          = map week (sf_articles (database s)))
   \<and> list_all2 (\<lambda>r r'. (status r \<noteq> None \<longrightarrow> status r' \<noteq> None) \<and>
                        (notes' r \<noteq> None \<longrightarrow> notes' r' \<noteq> None) \<and>
                        (week r \<noteq> None \<longrightarrow> week r' \<noteq> None))
        (sf_articles (database s))
        (sf_articles (database (snd (patch_api_articles_id now i p s))))"
proof -
  have eqs: "patch_api_articles_id now i (p\<lparr>p_status := Null\<rparr>) s
     = patch_api_articles_id now i (p\<lparr>p_status := Undefined\<rparr>) s"
    "patch_api_articles_id now i (p\<lparr>p_notes := Null\<rparr>) s
     = patch_api_articles_id now i (p\<lparr>p_notes := Undefined\<rparr>) s"
    "patch_api_articles_id now i (p\<lparr>p_week := Null\<rparr>) s
     = patch_api_articles_id now i (p\<lparr>p_week := Undefined\<rparr>) s"
    by (simp_all add: patch_api_articles_id_def)
  let ?rows = "sf_articles (database s)"
  let ?rows' = "sf_articles (database (snd (patch_api_articles_id now i p s)))"
  have st: "map status ?rows' = map status ?rows" if "p_status p = Null"
    using patch_rows_cases[of now i p s] that
    by (auto simp: varchar_def patch_set_def coalesce_def)
  have nt: "map notes' ?rows' = map notes' ?rows" if "p_notes p = Null"
    using patch_rows_cases[of now i p s] that
    by (auto simp: patch_set_def coalesce_def)
  have wk: "map week ?rows' = map week ?rows" if "p_week p = Null"
    using patch_rows_cases[of now i p s] that
    by (auto simp: int4_def patch_set_def coalesce_def)
  have keep: "list_all2 (\<lambda>r r'. (status r \<noteq> None \<longrightarrow> status r' \<noteq> None) \<and>
                        (notes' r \<noteq> None \<longrightarrow> notes' r' \<noteq> None) \<and>
                        (week r \<noteq> None \<longrightarrow> week r' \<noteq> None)) ?rows ?rows'"
    using patch_rows_cases[of now i p s]
    by (auto simp: list_all2_map_same list_all_iff list.rel_refl patch_set_def coalesce_def
        split: option.splits)
  from eqs st nt wk keep show ?thesis by blast
qed

theorem patch_null_is_omitted_witness:
  "patch_api_articles_id 9 1 \<lparr>p_status = Null, p_notes = Null, p_week = Null\<rparr> planner
     = patch_api_articles_id 9 1
         \<lparr>p_status = Undefined, p_notes = Undefined, p_week = Undefined\<rparr> planner
   \<and> map (\<lambda>r. (status r, notes' r, week r))
       (sf_articles (database (snd (patch_api_articles_id 9 1
           \<lparr>p_status = Null, p_notes = Null, p_week = Null\<rparr> planner))))
     = [(Some ''written'', Some ''draft ready'', Some 5)]"
proof -
  let ?n = "\<lparr>p_status = Null, p_notes = Null, p_week = Null\<rparr>"
  have rows: "sf_articles (database planner) = [written_row]" by (simp add: planner_def)
  have 1: "patch_api_articles_id 9 1 ?n planner
     = patch_api_articles_id 9 1
         \<lparr>p_status = Undefined, p_notes = Undefined, p_week = Undefined\<rparr> planner"
    using patch_null_is_omitted[of 9 1 ?n planner]
      patch_null_is_omitted[of 9 1 "\<lparr>p_status = Undefined, p_notes = Null, p_week = Null\<rparr>"
        planner]
      patch_null_is_omitted[of 9 1 "\<lparr>p_status = Undefined, p_notes = Undefined, p_week = Null\<rparr>"
        planner]
    by simp
  have len: "length (sf_articles (database (snd (patch_api_articles_id 9 1 ?n planner)))) = 1"
    using patch_null_is_omitted[of 9 1 ?n planner] rows
    by (auto dest: list_all2_lengthD)
  then obtain r where r: "sf_articles (database (snd (patch_api_articles_id 9 1 ?n planner))) = [r]"
    by (cases "sf_articles (database (snd (patch_api_articles_id 9 1 ?n planner)))") auto
  have "status r = Some ''written'' \<and> notes' r = Some ''draft ready'' \<and> week r = Some 5"
    using patch_null_is_omitted[of 9 1 ?n planner] rows r
    by (simp add: written_row_def)
  with 1 r show ?thesis by simp
qed

end
